theory Spec2Isabelle
  imports Complex_Main "HOL-Library.Word" "HOL-Library.Log_Nat" "HOL-Library.AList"
begin

unbundle bit_operations_syntax

section \<open>Bytes, errors and the UBX frame\<close>

type_synonym byte = "8 word"
type_synonym bytes = "byte list"

text \<open>
  Every exception the two scripts can raise is a value. The text carried by
  \<open>ValueError\<close>, \<open>NameError\<close>, \<open>KeyError\<close> and \<open>Exception\<close> is the message (or
  the key) the source builds.
\<close>

datatype error =
    ValueError string
  | NameError string
  | KeyError string
  | TypeError string
  | AttributeError string
  | IndexError
  | OverflowError
  | StructError string
  | HTTPError int
  | RequestException
  | Exception string

text \<open>
  Modelled from the spec: the checksum of \<open>gps.ubx.ubx\<close> (the gpsd library is not
  part of the sources). Section 3 of the specification: two 8-bit accumulators,
  \<open>ck_a += byte; ck_b += ck_a\<close>, both modulo 256, run over class, id, the
  little-endian length and the payload.
\<close>

definition checksum :: "bytes \<Rightarrow> byte \<times> byte" where
  "checksum bs = fold (\<lambda>b (ck_a, ck_b). (ck_a + b, ck_b + (ck_a + b))) bs (0, 0)"

text \<open>
  Modelled from the spec: \<open>make_pkt\<close> of \<open>gps.ubx.ubx\<close>. The wire form of
  section 3 is \<open>0xB5 0x62 class id length_le16 payload ck_a ck_b\<close>; a payload that
  does not fit the 16-bit length field is refused (section 4.1).
\<close>

definition make_pkt :: "byte \<Rightarrow> byte \<Rightarrow> bytes \<Rightarrow> error + bytes" where
  "make_pkt m_class m_id m_data =
     (if 65535 < length m_data then Inl (StructError ''payload too large'')
      else
        let m_len = length m_data;
            msg = [m_class, m_id, of_nat (m_len mod 256), of_nat (m_len div 256)] @ m_data;
            chk = checksum msg
        in Inr ([0xB5, 0x62] @ msg @ [fst chk, snd chk]))"

text \<open>
  Modelled from the spec: \<open>decode_msg\<close> of \<open>gps.ubx.ubx\<close>, which returns the
  number of bytes it consumed. Section 4.1: a byte in front of the sync marker is noise and
  is skipped, one byte per call; a buffer that holds only a prefix of a frame consumes
  nothing; a frame whose header and declared length are present consumes
  \<open>6 + payload_len + 2\<close> bytes, whether its checksum matches or not (the count is all
  the caller receives).
\<close>

definition ubx_decode :: "bytes \<Rightarrow> nat" where
  "ubx_decode buf =
     (case buf of
        [] \<Rightarrow> 0
      | [b] \<Rightarrow> if b = 0xB5 then 0 else 1
      | b1 # b2 # rest \<Rightarrow>
          if b1 = 0xB5 \<and> b2 = 0x62 then
            (case rest of
               c # i # lo # hi # more \<Rightarrow>
                 let n = unat lo + 256 * unat hi
                 in if length more < n + 2 then 0 else 8 + n
             | _ \<Rightarrow> 0)
          else 1)"

text \<open>
  What the specification calls a valid packet for a requested pair: a complete frame with
  that class and id whose two trailing bytes are the recomputed checksum.
\<close>

definition complete_frame :: "byte \<Rightarrow> byte \<Rightarrow> bytes \<Rightarrow> bool" where
  "complete_frame m_cls m_id p =
     (8 \<le> length p \<and> take 4 p = [0xB5, 0x62, m_cls, m_id] \<and>
      length p = 8 + (unat (p ! 4) + 256 * unat (p ! 5)))"

definition checksum_ok :: "bytes \<Rightarrow> bool" where
  "checksum_ok p =
     (2 \<le> length p \<and>
      checksum (take (length p - 4) (drop 2 p)) = (p ! (length p - 2), p ! (length p - 1)))"

section \<open>The receiver: \<open>UBlox\<close>\<close>

text \<open>
  \<open>UBlox.decode_msg\<close>: the library's count, the consumed prefix and the rest. The
  decoder is a parameter of type \<open>bytes \<Rightarrow> nat\<close> (a count of bytes).
\<close>

definition decode_msg :: "(bytes \<Rightarrow> nat) \<Rightarrow> bytes \<Rightarrow> nat \<times> bytes \<times> bytes" where
  "decode_msg dec data = (let consumed = dec data in (consumed, take consumed data, drop consumed data))"

text \<open>
  \<open>UBlox.send_data\<close>: the loop may in principle run forever, so it is a partial function
  whose value \<open>None\<close> stands for not returning. The result is the list of packets handed
  to \<open>gps_send_raw\<close>, in order.
\<close>

partial_function (option) send_data :: "(bytes \<Rightarrow> nat) \<Rightarrow> bytes \<Rightarrow> bytes list option" where
  "send_data dec data =
     (if length data = 0 then Some []
      else
        (case decode_msg dec data of
           (consumed, packet, data') \<Rightarrow>
             if consumed = 0 then Some []
             else Option.bind (send_data dec data') (\<lambda>sent. Some (packet # sent))))"

text \<open>\<open>send2gps\<close> of the stateless script: \<open>while True\<close>, left only by the break.\<close>

partial_function (option) send2gps :: "(bytes \<Rightarrow> nat) \<Rightarrow> bytes \<Rightarrow> bytes list option" where
  "send2gps dec data =
     (let consumed = dec data
      in if consumed = 0 then Some []
         else Option.bind (send2gps dec (drop consumed data))
                (\<lambda>sent. Some (take consumed data # sent)))"

text \<open>
  \<open>UBlox.wait_for\<close>. The transport and the clock are a list of events, one per test of
  the loop condition: \<open>Tick chunk\<close> is an iteration inside the timeout in which the
  transport delivers \<open>chunk\<close> (empty when nothing is waiting), \<open>Deadline\<close> is the test
  that finds the timeout elapsed. An exhausted list counts as the deadline. The function
  returns the packet (empty on timeout) and the events left for later calls.
\<close>

datatype event = Tick bytes | Deadline

fun wait_for :: "(bytes \<Rightarrow> nat) \<Rightarrow> byte \<Rightarrow> byte \<Rightarrow> event list \<Rightarrow> bytes \<Rightarrow> bytes \<times> event list" where
  "wait_for dec m_cls m_id [] data = ([], [])"
| "wait_for dec m_cls m_id (Deadline # evs) data = ([], evs)"
| "wait_for dec m_cls m_id (Tick chunk # evs) data =
     (case decode_msg dec (data @ chunk) of
        (consumed, packet, data') \<Rightarrow>
          if take 4 packet = [0xB5, 0x62, m_cls, m_id] then (packet, evs)
          else wait_for dec m_cls m_id evs data')"


section \<open>Python numbers\<close>

text \<open>
  A Python \<open>int\<close> is unbounded. A finite Python \<open>float\<close> is an IEEE 754 binary64
  value, kept here as the rational it denotes; every float operation of the source
  computes the exact result and rounds it to the nearest binary64 value, ties to even
  (\<open>round_double\<close>). Subnormal results share the exponent \<open>-1074\<close>; a result of
  magnitude \<open>2 ^ 1024\<close> or more stands for an infinity.
\<close>

datatype pynum = PInt int | PFloat rat

definition pow2 :: "int \<Rightarrow> rat" where
  "pow2 e = (if 0 \<le> e then 2 ^ nat e else 1 / 2 ^ nat (- e))"

definition floor_log2 :: "rat \<Rightarrow> int" where
  "floor_log2 a = (if 1 \<le> a then bitlen \<lfloor>a\<rfloor> - 1 else - bitlen (\<lceil>1 / a\<rceil> - 1))"

definition round_half_even :: "rat \<Rightarrow> int" where
  "round_half_even x =
     (let f = \<lfloor>x\<rfloor>; d = x - of_int f
      in if d < 1 / 2 then f else if 1 / 2 < d then f + 1 else if even f then f else f + 1)"

definition round_double :: "rat \<Rightarrow> rat" where
  "round_double x =
     (if x = 0 then 0
      else
        let a = \<bar>x\<bar>;
            e = max (floor_log2 a - 52) (- 1074);
            m = round_half_even (a / pow2 e)
        in sgn x * of_int m * pow2 e)"

text \<open>The float written as a decimal literal in a Python source or string.\<close>

definition float_lit :: "rat \<Rightarrow> rat" where
  "float_lit q = round_double q"

text \<open>Python's \<open>int(x)\<close> on a float truncates towards zero.\<close>

definition py_trunc :: "rat \<Rightarrow> int" where
  "py_trunc x = (if 0 \<le> x then \<lfloor>x\<rfloor> else \<lceil>x\<rceil>)"

text \<open>
  \<open>int(x * 10**k)\<close>: with an \<open>int\<close> the product is exact; with a \<open>float\<close> the
  power of ten is converted (exactly, for the exponents used) and the product is rounded;
  \<open>int\<close> of an infinity raises.
\<close>

definition int_times_pow10 :: "pynum \<Rightarrow> nat \<Rightarrow> error + int" where
  "int_times_pow10 x k =
     (case x of
        PInt i \<Rightarrow> Inr (i * 10 ^ k)
      | PFloat f \<Rightarrow>
          let p = round_double (f * 10 ^ k)
          in if 2 ^ 1024 \<le> \<bar>p\<bar> then Inl OverflowError else Inr (py_trunc p))"

section \<open>The position-aid message\<close>

text \<open>
  \<open>struct.pack_into("<3iI", ...)\<close>: each value is checked against its format before it is
  written, and written as four little-endian bytes (two's complement for \<open>i\<close>).
\<close>

definition le32 :: "int \<Rightarrow> bytes" where
  "le32 v = map (\<lambda>k. (word_of_int (v div 256 ^ k) :: byte)) [0, 1, 2, 3]"

definition pack_i :: "int \<Rightarrow> error + bytes" where
  "pack_i v =
     (if - 2147483648 \<le> v \<and> v \<le> 2147483647 then Inr (le32 v)
      else Inl (StructError ''i format requires -2147483648 <= number <= 2147483647''))"

definition pack_I :: "int \<Rightarrow> error + bytes" where
  "pack_I v =
     (if 0 \<le> v \<and> v \<le> 4294967295 then Inr (le32 v)
      else Inl (StructError ''I format requires 0 <= number <= 4294967295''))"

text \<open>Sequencing of fallible steps: the first exception ends the computation.\<close>

definition bind_err :: "error + 'a \<Rightarrow> ('a \<Rightarrow> error + 'b) \<Rightarrow> error + 'b" where
  "bind_err r f = (case r of Inl e \<Rightarrow> Inl e | Inr x \<Rightarrow> f x)"

text \<open>
  The 20-byte payload \<open>m_data\<close> of \<open>UBlox.ubx_mga_ini_pos_llh\<close>: bytes 0 and 1 are set
  to \<open>0x01, 0x00\<close>, bytes 2 and 3 stay zero, the four packed values start at offset 4.
\<close>

definition pos_llh_payload :: "pynum \<Rightarrow> pynum \<Rightarrow> pynum \<Rightarrow> pynum \<Rightarrow> error + bytes" where
  "pos_llh_payload lat_deg lon_deg alt_m pacc_km =
     bind_err (int_times_pow10 lat_deg 7) (\<lambda>lat.
     bind_err (int_times_pow10 lon_deg 7) (\<lambda>lon.
     bind_err (int_times_pow10 alt_m 2) (\<lambda>alt.
     bind_err (int_times_pow10 pacc_km 6) (\<lambda>acc.
     bind_err (pack_i lat) (\<lambda>b_lat.
     bind_err (pack_i lon) (\<lambda>b_lon.
     bind_err (pack_i alt) (\<lambda>b_alt.
     bind_err (pack_I acc) (\<lambda>b_acc.
       Inr ([0x01, 0x00, 0, 0] @ b_lat @ b_lon @ b_alt @ b_acc)))))))))"

text \<open>
  \<open>UBlox.ubx_mga_ini_pos_llh(lat_deg, lon_deg, alt_m=0, pacc_km=300)\<close>; an argument
  left out is \<open>None\<close> here and takes the default of the signature.
\<close>

definition ubx_mga_ini_pos_llh :: "pynum \<Rightarrow> pynum \<Rightarrow> pynum option \<Rightarrow> pynum option \<Rightarrow> error + bytes" where
  "ubx_mga_ini_pos_llh lat_deg lon_deg alt_m pacc_km =
     bind_err
       (pos_llh_payload lat_deg lon_deg
          (case alt_m of None \<Rightarrow> PInt 0 | Some a \<Rightarrow> a)
          (case pacc_km of None \<Rightarrow> PInt 300 | Some p \<Rightarrow> p))
       (\<lambda>m_data. make_pkt 0x13 0x40 m_data)"

text \<open>Reading four payload bytes back as a little-endian integer, unsigned and signed.\<close>

definition le_u32 :: "bytes \<Rightarrow> int" where
  "le_u32 bs = (\<Sum>k \<leftarrow> [0 ..< 4]. uint (bs ! k) * 256 ^ k)"

definition le_i32 :: "bytes \<Rightarrow> int" where
  "le_i32 bs = (let u = le_u32 bs in if u < 2147483648 then u else u - 4294967296)"


section \<open>Python values, strings and dictionaries\<close>

text \<open>
  The values that occur as command-line arguments, as keyword arguments of \<open>update\<close>
  and in the JSON configuration: \<open>None\<close>, strings, integers and finite floats (a float by
  the rational it denotes). A dictionary is an association list in insertion order;
  \<open>AList.update\<close> overwrites a key in place and appends a new one, as a Python
  \<open>dict\<close> does. Characters are code points below 256.
\<close>

datatype pyval = VNone | VStr string | VInt int | VFloat rat

type_synonym dict = "(string \<times> pyval) list"

text \<open>Python's \<open>==\<close>: an \<open>int\<close> and a \<open>float\<close> are equal when their values are.\<close>

definition py_eq :: "pyval \<Rightarrow> pyval \<Rightarrow> bool" where
  "py_eq a b =
     (case (a, b) of
        (VNone, VNone) \<Rightarrow> True
      | (VStr s, VStr t) \<Rightarrow> s = t
      | (VInt i, VInt j) \<Rightarrow> i = j
      | (VInt i, VFloat y) \<Rightarrow> of_int i = y
      | (VFloat x, VInt j) \<Rightarrow> x = of_int j
      | (VFloat x, VFloat y) \<Rightarrow> x = y
      | _ \<Rightarrow> False)"

text \<open>\<open>d.get(k, None)\<close> and \<open>d[k]\<close>.\<close>

definition dict_get :: "dict \<Rightarrow> string \<Rightarrow> pyval" where
  "dict_get d k = (case map_of d k of None \<Rightarrow> VNone | Some v \<Rightarrow> v)"

definition dict_item :: "dict \<Rightarrow> string \<Rightarrow> error + pyval" where
  "dict_item d k = (case map_of d k of None \<Rightarrow> Inl (KeyError k) | Some v \<Rightarrow> Inr v)"

text \<open>\<open>s.split(",")\<close>, \<open>s.strip()\<close> and \<open>sep.join(xs)\<close>.\<close>

fun split_comma :: "string \<Rightarrow> string list" where
  "split_comma [] = [[]]"
| "split_comma (c # cs) =
     (if c = CHR '','' then [] # split_comma cs
      else (case split_comma cs of [] \<Rightarrow> [[c]] | w # ws \<Rightarrow> (c # w) # ws))"

definition is_space :: "char \<Rightarrow> bool" where
  "is_space c = ((of_char c :: nat) \<in> set [9, 10, 11, 12, 13, 28, 29, 30, 31, 32, 133, 160])"

definition strip :: "string \<Rightarrow> string" where
  "strip s = rev (dropWhile is_space (rev (dropWhile is_space s)))"

fun join :: "string \<Rightarrow> string list \<Rightarrow> string" where
  "join sep [] = []"
| "join sep [x] = x"
| "join sep (x # y # ys) = x @ sep @ join sep (y # ys)"

text \<open>Decimal text of an integer, as an f-string prints it.\<close>

fun digits :: "nat \<Rightarrow> string" where
  "digits n = (if n < 10 then [''0123456789'' ! n] else digits (n div 10) @ [''0123456789'' ! (n mod 10)])"

declare digits.simps [simp del]

definition show_int :: "int \<Rightarrow> string" where
  "show_int i = (if i < 0 then CHR ''-'' # digits (nat (- i)) else digits (nat i))"

section \<open>Validation: \<open>Helpers\<close>\<close>

text \<open>
  \<open>Helpers.validate_list\<close> (the nested \<open>validate_list\<close> of the stateless script is the
  same text). A false value (\<open>None\<close>, the empty string, zero) falls through and the
  function returns \<open>None\<close>; a number that is not zero cannot be iterated.
\<close>

definition unknown_value :: "string \<Rightarrow> string list \<Rightarrow> error" where
  "unknown_value v available_choices =
     ValueError (''Unknown value '' @ [CHR 0x27] @ v @ [CHR 0x27] @ ''; valid choices are: ''
                 @ join '', '' available_choices)"

definition validate_list :: "pyval \<Rightarrow> string list \<Rightarrow> error + pyval" where
  "validate_list values available_choices =
     (case values of
        VNone \<Rightarrow> Inr VNone
      | VStr s \<Rightarrow>
          if s = [] then Inr VNone
          else
            let vs = map strip (split_comma s)
            in (case find (\<lambda>v. v \<notin> set available_choices) vs of
                  Some v \<Rightarrow> Inl (unknown_value v available_choices)
                | None \<Rightarrow> Inr (VStr (join '','' vs)))
      | VInt i \<Rightarrow> if i = 0 then Inr VNone else Inl (TypeError ''int object is not iterable'')
      | VFloat x \<Rightarrow> if x = 0 then Inr VNone else Inl (TypeError ''float object is not iterable''))"

text \<open>
  The built-in \<open>float\<close>. On a string it is a parameter \<open>pf\<close>: \<open>None\<close> when the string is
  not a number (\<open>ValueError\<close>), otherwise a finite value or one of \<open>inf\<close>, \<open>-inf\<close>,
  \<open>nan\<close>, which no range admits and which are therefore not told apart. An \<open>int\<close> is
  rounded to the nearest float and raises when it is too large.
\<close>

datatype pyfloat = Finite rat | NotFinite

text \<open>
  Both error messages of \<open>validate_number\<close> interpolate \<open>v\<close>, which is neither a
  parameter nor a local of the function: the name resolves to the module-level variable
  \<open>v\<close>, which the argument loop of the main program leaves bound to the value of the last
  \<open>key=value\<close> argument. \<open>gv\<close> is that variable: \<open>None\<close> when it is unbound (no
  argument, or the module imported), and then evaluating the message raises
  \<open>NameError\<close>.
\<close>

definition invalid_value :: "string option \<Rightarrow> string \<Rightarrow> error" where
  "invalid_value gv what =
     (case gv of
        None \<Rightarrow> NameError ''name 'v' is not defined''
      | Some v \<Rightarrow> ValueError (''Invalid value '' @ [CHR 0x27] @ v @ [CHR 0x27] @ ''; '' @ what))"

definition py_float :: "(string \<Rightarrow> pyfloat option) \<Rightarrow> string option \<Rightarrow> pyval \<Rightarrow> error + pyfloat" where
  "py_float pf gv val =
     (case val of
        VNone \<Rightarrow> Inl (TypeError ''float() argument must be a string or a real number'')
      | VStr s \<Rightarrow> (case pf s of None \<Rightarrow> Inl (invalid_value gv ''not a number'') | Some f \<Rightarrow> Inr f)
      | VInt i \<Rightarrow>
          let x = round_double (of_int i)
          in if 2 ^ 1024 \<le> \<bar>x\<bar> then Inl OverflowError else Inr (Finite x)
      | VFloat x \<Rightarrow> Inr (Finite x))"

definition not_in_range :: "int \<Rightarrow> int \<Rightarrow> string" where
  "not_in_range min_value max_value =
     ''not in ['' @ show_int min_value @ '', '' @ show_int max_value @ '']''"

definition validate_number ::
  "(string \<Rightarrow> pyfloat option) \<Rightarrow> string option \<Rightarrow> pyval \<Rightarrow> int \<Rightarrow> int \<Rightarrow> error + pyval" where
  "validate_number pf gv val min_value max_value =
     (if val \<noteq> VNone then
        bind_err (py_float pf gv val) (\<lambda>f.
          case f of
            Finite x \<Rightarrow>
              if \<not> (of_int min_value \<le> x \<and> x \<le> of_int max_value)
              then Inl (invalid_value gv (not_in_range min_value max_value))
              else Inr (VFloat x)
          | NotFinite \<Rightarrow> Inl (invalid_value gv (not_in_range min_value max_value)))
      else Inr val)"


section \<open>The assistance cache manager: \<open>AssistNow\<close>\<close>

text \<open>
  What the program takes from outside. \<open>float_of_str\<close> is the built-in \<open>float\<close> on
  strings and \<open>global_v\<close> the module-level variable \<open>v\<close> (see \<open>invalid_value\<close>);
  \<open>decoder\<close> is the library's \<open>decode_msg\<close> and \<open>commands\<close> its command table (the
  \<open>opt\<close> bytes of each entry); \<open>http_get\<close> and \<open>http_post\<close> are the cloud service seen
  through \<open>requests\<close>: either an exception or a status code with the body (for the
  registration, the body as decoded JSON, \<open>None\<close> when it does not decode).
\<close>

record env =
  float_of_str :: "string \<Rightarrow> pyfloat option"
  global_v :: "string option"
  decoder :: "bytes \<Rightarrow> nat"
  commands :: "string \<Rightarrow> bytes option"
  http_get :: "pyval \<Rightarrow> dict \<Rightarrow> error + (int \<times> bytes)"
  http_post :: "pyval \<Rightarrow> string \<Rightarrow> string \<Rightarrow> error + (int \<times> dict option)"

datatype http_request = Get pyval dict | Post pyval string string

text \<open>
  The object and the world it acts on: the fields of \<open>AssistNow\<close>, the two files, the
  clock, the events the transport will deliver, and the effects so far: the packets
  written to the device and the requests sent to the cloud service.
\<close>

record assistnow =
  cache_duration :: pyval
  config :: dict
  cache :: "bytes option"
  config_file :: "dict option"
  cache_file :: "(rat \<times> bytes) option"
  clock :: rat
  rx :: "event list"
  sent :: "bytes list"
  requests :: "http_request list"

text \<open>\<open>load_config\<close>: the stored dictionary, or an empty one when the file does not load.\<close>

definition load_config :: "dict option \<Rightarrow> dict" where
  "load_config file = (case file of None \<Rightarrow> [] | Some c \<Rightarrow> c)"

text \<open>
  \<open>load_cache\<close>: the file is read when its age is at most \<open>cache_duration * 3600\<close>
  seconds; any exception (no file, a \<open>cache_duration\<close> of \<open>None\<close>) leaves no cache.
\<close>

definition load_cache :: "pyval \<Rightarrow> (rat \<times> bytes) option \<Rightarrow> rat \<Rightarrow> bytes option" where
  "load_cache duration file now =
     (case file of
        None \<Rightarrow> None
      | Some (st_mtime, content) \<Rightarrow>
          (case duration of
             VFloat d \<Rightarrow>
               if round_double (now - st_mtime) \<le> round_double (d * 3600) then Some content else None
           | _ \<Rightarrow> None))"

text \<open>
  \<open>AssistNow.__init__\<close>. The constructor of the script passes
  \<open>kwargs.get("cache_duration", 3)\<close>: the argument's string, or the integer 3.
\<close>

definition AssistNow_init ::
  "env \<Rightarrow> pyval \<Rightarrow> dict option \<Rightarrow> (rat \<times> bytes) option \<Rightarrow> rat \<Rightarrow> event list \<Rightarrow> error + assistnow" where
  "AssistNow_init e duration cfg_file cch_file now evs =
     bind_err (validate_number (float_of_str e) (global_v e) duration 0 24) (\<lambda>d.
       Inr \<lparr> cache_duration = d, config = load_config cfg_file,
             cache = load_cache d cch_file now,
             config_file = cfg_file, cache_file = cch_file, clock = now,
             rx = evs, sent = [], requests = [] \<rparr>)"

definition default_cache_duration :: pyval where
  "default_cache_duration = VInt 3"

definition save_config :: "assistnow \<Rightarrow> assistnow" where
  "save_config st = (if config st \<noteq> [] then st\<lparr>config_file := Some (config st)\<rparr> else st)"

text \<open>Python's truth value of \<open>self.cache\<close>: \<open>None\<close> and the empty bytes are false.\<close>

definition has_cache :: "assistnow \<Rightarrow> bool" where
  "has_cache st = (case cache st of None \<Rightarrow> False | Some bs \<Rightarrow> bs \<noteq> [])"

definition save_cache :: "assistnow \<Rightarrow> assistnow" where
  "save_cache st =
     (case cache st of
        None \<Rightarrow> st
      | Some bs \<Rightarrow> if bs \<noteq> [] then st\<lparr>cache_file := Some (clock st, bs)\<rparr> else st)"

definition is_registered :: "assistnow \<Rightarrow> bool" where
  "is_registered st = (map_of (config st) ''chipcode'' \<noteq> None)"

text \<open>
  \<open>UBlox.fetch_answer\<close>: the command's \<open>opt\<close> bytes give class, id and payload; the
  library's \<open>gps_send\<close> frames them and writes the packet; then \<open>wait_for\<close> with the
  default timeout.
\<close>

definition fetch_answer :: "env \<Rightarrow> string \<Rightarrow> assistnow \<Rightarrow> (error + bytes) \<times> assistnow" where
  "fetch_answer e msg st =
     (case commands e msg of
        None \<Rightarrow> (Inl (KeyError msg), st)
      | Some opt \<Rightarrow>
          (case opt of
             m_cls # m_id # m_data \<Rightarrow>
               (case make_pkt m_cls m_id m_data of
                  Inl err \<Rightarrow> (Inl err, st)
                | Inr pkt \<Rightarrow>
                    (case wait_for (decoder e) m_cls m_id (rx st) [] of
                       (packet, evs) \<Rightarrow> (Inr packet, st\<lparr>sent := sent st @ [pkt], rx := evs\<rparr>)))
           | _ \<Rightarrow> (Inl IndexError, st)))"

text \<open>\<open>bytes.hex().upper()\<close>.\<close>

definition hex_upper :: "bytes \<Rightarrow> string" where
  "hex_upper bs =
     concat (map (\<lambda>b. [''0123456789ABCDEF'' ! (unat b div 16), ''0123456789ABCDEF'' ! (unat b mod 16)]) bs)"

text \<open>
  \<open>raise_for_status\<close> is called when the status is not 200 and raises for the 4xx and
  5xx codes only.
\<close>

definition raises_for_status :: "int \<Rightarrow> bool" where
  "raises_for_status status = (status \<noteq> 200 \<and> 400 \<le> status \<and> status < 600)"

definition register :: "env \<Rightarrow> pyval \<Rightarrow> assistnow \<Rightarrow> (error + unit) \<times> assistnow" where
  "register e token st =
     (if is_registered st then (Inl (Exception ''Device already registered.''), st)
      else
        (case fetch_answer e ''SEC-UNIQID'' st of
           (Inl err, st1) \<Rightarrow> (Inl err, st1)
         | (Inr p1, st1) \<Rightarrow>
             (case fetch_answer e ''MON-VER'' st1 of
                (Inl err, st2) \<Rightarrow> (Inl err, st2)
              | (Inr p2, st2) \<Rightarrow>
                  let sec_uniqid = hex_upper p1; mon_ver = hex_upper p2
                  in if sec_uniqid = [] \<or> mon_ver = []
                     then (Inl (Exception ''Device did not answer''), st2)
                     else
                       let st3 = st2\<lparr>requests := requests st2 @ [Post token sec_uniqid mon_ver]\<rparr>
                       in (case http_post e token sec_uniqid mon_ver of
                             Inl err \<Rightarrow> (Inl err, st3)
                           | Inr (status, body) \<Rightarrow>
                               if raises_for_status status then (Inl (HTTPError status), st3)
                               else
                                 (case body of
                                    None \<Rightarrow> (Inl (ValueError ''response is not JSON''), st3)
                                  | Some cfg \<Rightarrow> (Inr (), save_config (st3\<lparr>config := cfg\<rparr>)))))))"


text \<open>
  \<open>AssistNow.update\<close>, in the order of the source. First the parameter dictionary: the
  allowed data types come from the configuration, the six entries are validated in the
  order they are written, and \<open>filteronpos\<close> is added when both \<open>lat\<close> and \<open>lon\<close>
  are present.
\<close>

definition allowed_data_of :: "pyval \<Rightarrow> error + string list" where
  "allowed_data_of a =
     (case a of
        VStr s \<Rightarrow> Inr (map strip (split_comma s))
      | _ \<Rightarrow> Inl (AttributeError (''object has no attribute 'split'' @ [CHR 0x27])))"

definition position_present :: "dict \<Rightarrow> bool" where
  "position_present params = (dict_get params ''lat'' \<noteq> VNone \<and> dict_get params ''lon'' \<noteq> VNone)"

definition validate_params :: "env \<Rightarrow> dict \<Rightarrow> dict \<Rightarrow> error + dict" where
  "validate_params e kwargs cfg =
     bind_err (dict_item cfg ''allowedData'') (\<lambda>a.
     bind_err (allowed_data_of a) (\<lambda>allowed_data.
     bind_err (validate_list (dict_get kwargs ''data'') allowed_data) (\<lambda>data.
     bind_err (validate_list (dict_get kwargs ''gnss'') [''gps'', ''glo'', ''gal'', ''bds'', ''qzss'']) (\<lambda>gnss.
     bind_err (validate_number (float_of_str e) (global_v e) (dict_get kwargs ''lat'') (- 90) 90) (\<lambda>lat.
     bind_err (validate_number (float_of_str e) (global_v e) (dict_get kwargs ''lon'') (- 180) 180) (\<lambda>lon.
     bind_err (validate_number (float_of_str e) (global_v e) (dict_get kwargs ''alt'') (- 1000) 50000) (\<lambda>alt.
     bind_err (validate_number (float_of_str e) (global_v e) (dict_get kwargs ''pacc'') 0 6000000) (\<lambda>pacc.
       let params = [(''data'', data), (''gnss'', gnss), (''lat'', lat), (''lon'', lon),
                     (''alt'', alt), (''pacc'', pacc)]
       in Inr (if position_present params then params @ [(''filteronpos'', VInt 1)] else params)))))))))"

text \<open>
  The comparison loop: every parameter whose recorded value differs is written into the
  configuration and sets \<open>changed\<close>.
\<close>

fun track_params :: "dict \<Rightarrow> dict \<Rightarrow> bool \<Rightarrow> dict \<times> bool" where
  "track_params [] cfg changed = (cfg, changed)"
| "track_params ((k, v) # ps) cfg changed =
     (if \<not> py_eq (dict_get cfg k) v then track_params ps (AList.update k v cfg) True
      else track_params ps cfg changed)"

text \<open>
  The call \<open>self.ublox.ubx_mga_ini_pos_llh(*args, **kwargs)\<close>: the positional arguments
  are \<open>lat\<close> and \<open>lon\<close>; the keyword arguments are built under the keys \<open>alt\<close> and
  \<open>pacc\<close>, while the parameters of the function are named \<open>alt_m\<close> and \<open>pacc_km\<close>, so
  a keyword argument, when there is one, is rejected by the call.
\<close>

definition num_of :: "pyval \<Rightarrow> error + pynum" where
  "num_of v =
     (case v of
        VInt i \<Rightarrow> Inr (PInt i)
      | VFloat x \<Rightarrow> Inr (PFloat x)
      | _ \<Rightarrow> Inl (TypeError ''unsupported operand type(s) for *''))"

definition initial_position :: "dict \<Rightarrow> error + bytes" where
  "initial_position params =
     (if dict_get params ''alt'' \<noteq> VNone
      then Inl (TypeError (''ubx_mga_ini_pos_llh() got an unexpected keyword argument 'alt'' @ [CHR 0x27]))
      else if dict_get params ''pacc'' \<noteq> VNone
      then Inl (TypeError (''ubx_mga_ini_pos_llh() got an unexpected keyword argument 'pacc'' @ [CHR 0x27]))
      else
        bind_err (num_of (dict_get params ''lat'')) (\<lambda>lat.
        bind_err (num_of (dict_get params ''lon'')) (\<lambda>lon.
          ubx_mga_ini_pos_llh lat lon None None)))"

text \<open>
  The last statement, \<open>self.ublox.send_data(self.cache)\<close>: the packets cut from the cache
  are appended to what the device has received. \<open>None\<close> stands for not returning.
\<close>

definition send_cache :: "env \<Rightarrow> assistnow \<Rightarrow> ((error + unit) \<times> assistnow) option" where
  "send_cache e st =
     (case cache st of
        None \<Rightarrow> Some (Inl (TypeError ''object of type 'NoneType' has no len()''), st)
      | Some bs \<Rightarrow>
          map_option (\<lambda>pkts. (Inr (), st\<lparr>sent := sent st @ pkts\<rparr>)) (send_data (decoder e) bs))"

text \<open>
  The branch \<open>if not self.cache\<close>: one GET request to the service URL, the position-aid
  message in front of the body when both \<open>lat\<close> and \<open>lon\<close> are present, the result kept
  as the cache and saved.
\<close>

definition fetch :: "env \<Rightarrow> dict \<Rightarrow> assistnow \<Rightarrow> ((error + unit) \<times> assistnow) option" where
  "fetch e params st =
     (case dict_item (config st) ''serviceUrl'' of
        Inl err \<Rightarrow> Some (Inl err, st)
      | Inr url \<Rightarrow>
          (case dict_item (config st) ''chipcode'' of
             Inl err \<Rightarrow> Some (Inl err, st)
           | Inr chipcode \<Rightarrow>
               let params' = AList.update ''chipcode'' chipcode params;
                   st1 = st\<lparr>requests := requests st @ [Get url params']\<rparr>
               in (case http_get e url params' of
                     Inl err \<Rightarrow> Some (Inl err, st1)
                   | Inr (status, content) \<Rightarrow>
                       if raises_for_status status then Some (Inl (HTTPError status), st1)
                       else
                         (case (if position_present params'
                                then bind_err (initial_position params') (\<lambda>ip. Inr (ip @ content))
                                else Inr content) of
                            Inl err \<Rightarrow> Some (Inl err, st1)
                          | Inr data \<Rightarrow> send_cache e (save_cache (st1\<lparr>cache := Some data\<rparr>))))))"

definition update :: "env \<Rightarrow> dict \<Rightarrow> assistnow \<Rightarrow> ((error + unit) \<times> assistnow) option" where
  "update e kwargs st =
     (if \<not> is_registered st then Some (Inl (Exception ''Device not registered.''), st)
      else
        let kwargs' = (if kwargs = [] then config st else kwargs)
        in (case validate_params e kwargs' (config st) of
              Inl err \<Rightarrow> Some (Inl err, st)
            | Inr params \<Rightarrow>
                (case track_params params (config st) False of
                   (cfg, changed) \<Rightarrow>
                     let st1 = st\<lparr>config := cfg\<rparr>;
                         st2 = (if changed then (save_config st1)\<lparr>cache := None\<rparr> else st1)
                     in if \<not> has_cache st2 then fetch e params st2 else send_cache e st2)))"

section \<open>The stateless script\<close>

text \<open>
  Lines 57 to 69 of \<open>assistnow\<close> in the stateless script, reached when both \<open>lat\<close> and
  \<open>lon\<close> are present: \<open>(params["alt"] or 0)\<close> and \<open>(params["pacc"] or 300)\<close> replace a
  value that is \<open>None\<close> or zero by the integer default.
\<close>

definition py_or :: "pyval \<Rightarrow> int \<Rightarrow> error + pynum" where
  "py_or v d =
     (case v of
        VNone \<Rightarrow> Inr (PInt d)
      | VInt i \<Rightarrow> Inr (PInt (if i = 0 then d else i))
      | VFloat x \<Rightarrow> Inr (if x = 0 then PInt d else PFloat x)
      | VStr s \<Rightarrow> if s = [] then Inr (PInt d) else Inl (TypeError ''unsupported operand type(s) for *''))"

definition assistnow_initial_position :: "dict \<Rightarrow> error + bytes" where
  "assistnow_initial_position params =
     bind_err (num_of (dict_get params ''lat'')) (\<lambda>lat.
     bind_err (num_of (dict_get params ''lon'')) (\<lambda>lon.
     bind_err (py_or (dict_get params ''alt'') 0) (\<lambda>alt.
     bind_err (py_or (dict_get params ''pacc'') 300) (\<lambda>pacc.
     bind_err (pos_llh_payload lat lon alt pacc) (\<lambda>m_data. make_pkt 0x13 0x40 m_data)))))"


section \<open>Instances for the examples\<close>

text \<open>
  An instance of the built-in \<open>float\<close> on strings, given by a table of the strings an
  example uses and the floats Python reads them as; the examples apply it to those strings
  and to strings that are not numbers.
\<close>

definition float_table :: "(string \<times> rat) list \<Rightarrow> string \<Rightarrow> pyfloat option" where
  "float_table tab s = map_option Finite (map_of tab s)"

text \<open>A configuration as the registration leaves it, and one that has served a request.\<close>

definition registered_config :: dict where
  "registered_config =
     [(''chipcode'', VStr ''c0de''), (''serviceUrl'', VStr ''https://service''),
      (''allowedData'', VStr ''eph,alm,aux'')]"

definition served_config :: dict where
  "served_config =
     registered_config @
     [(''data'', VStr ''eph''), (''gnss'', VNone), (''lat'', VFloat 1), (''lon'', VFloat 2),
      (''alt'', VNone), (''pacc'', VNone), (''filteronpos'', VInt 1)]"

text \<open>
  An environment: the decoder of the specification, the two commands the registration
  uses, and a cloud service that answers every request with status 200, a fixed blob for
  the data and \<open>registered_config\<close> for the registration.
\<close>

definition example_env :: "string option \<Rightarrow> bytes \<Rightarrow> env" where
  "example_env gv blob =
     \<lparr> float_of_str = float_table [(''100'', 100), (''5'', 5), (''30'', 30)],
       global_v = gv,
       decoder = ubx_decode,
       commands = map_of [(''SEC-UNIQID'', [0x27, 0x03]), (''MON-VER'', [0x0A, 0x04])],
       http_get = (\<lambda>url params. Inr (200, blob)),
       http_post = (\<lambda>token sec_uniqid mon_ver. Inr (200, Some registered_config)) \<rparr>"

definition example_state :: "dict \<Rightarrow> bytes option \<Rightarrow> assistnow" where
  "example_state cfg cch =
     \<lparr> cache_duration = VFloat 3, config = cfg, cache = cch,
       config_file = Some cfg, cache_file = map_option (\<lambda>bs. (0, bs)) cch, clock = 60,
       rx = [], sent = [], requests = [] \<rparr>"


text \<open>A device that has served the request \<open>data=eph lat=1.0 lon=2.0\<close> and holds a cache.\<close>

definition served_state :: assistnow where
  "served_state = example_state served_config (Some [0xB5, 0x62, 0x0A, 0x04, 0, 0, 0x0E, 0x34])"


declare send_data.simps [code] send2gps.simps [code]

section \<open>Termination of the forwarding loops\<close>

lemma send_data_returns: "\<exists>sent. send_data dec data = Some sent"
proof (induction data rule: length_induct)
  case (1 data)
  show ?case
  proof (cases "length data = 0 \<or> dec data = 0")
    case True
    then show ?thesis by (subst send_data.simps) (auto simp: decode_msg_def)
  next
    case False
    then have "length (drop (dec data) data) < length data" by simp
    with 1 obtain s where "send_data dec (drop (dec data) data) = Some s" by blast
    with False show ?thesis by (subst send_data.simps) (simp add: decode_msg_def Let_def)
  qed
qed

lemma send2gps_returns:
  assumes "dec [] = 0"
  shows "\<exists>sent. send2gps dec data = Some sent"
proof (induction data rule: length_induct)
  case (1 data)
  show ?case
  proof (cases "dec data = 0")
    case True
    then show ?thesis by (subst send2gps.simps) simp
  next
    case False
    with assms have "data \<noteq> []" by auto
    with False have "length (drop (dec data) data) < length data" by simp
    with 1 obtain s where "send2gps dec (drop (dec data) data) = Some s" by blast
    with False show ?thesis by (subst send2gps.simps) (simp add: Let_def)
  qed
qed

lemma ubx_decode_Nil: "ubx_decode [] = 0"
  by (simp add: ubx_decode_def)

text \<open>
  Claim C7. \<open>send_data\<close> returns for every input byte sequence, whatever count the
  decoder reports: an iteration either finds a count of zero and leaves the loop, or cuts
  a non-empty prefix off the buffer, so trailing bytes that hold no complete packet end
  the loop instead of spinning. The \<open>while True\<close> loop of \<open>send2gps\<close> returns as
  well with the decoder of the specification, which consumes nothing of an empty buffer.
\<close>

theorem send_data_terminates:
  "(\<exists>sent. send_data dec data = Some sent) \<and> (\<exists>sent. send2gps ubx_decode data = Some sent)"
  using send_data_returns send2gps_returns [of ubx_decode, OF ubx_decode_Nil] by blast

section \<open>What \<open>wait_for\<close> returns\<close>

lemma frame_of_decode:
  assumes "take 4 (take (ubx_decode d) d) = [0xB5, 0x62, c, i]"
  shows "complete_frame c i (take (ubx_decode d) d)"
  using assms
  by (auto simp: ubx_decode_def complete_frame_def Let_def split: list.splits if_splits)

lemma wait_for_Tick:
  "wait_for dec m_cls m_id (Tick chunk # evs) data =
     (if take 4 (take (dec (data @ chunk)) (data @ chunk)) = [0xB5, 0x62, m_cls, m_id]
      then (take (dec (data @ chunk)) (data @ chunk), evs)
      else wait_for dec m_cls m_id evs (drop (dec (data @ chunk)) (data @ chunk)))"
  by (simp add: decode_msg_def Let_def del: take_append drop_append)

lemma wait_for_prefix:
  assumes "wait_for dec m_cls m_id evs data = (packet, evs')" and "packet \<noteq> []"
  shows "take 4 packet = [0xB5, 0x62, m_cls, m_id] \<and> (\<exists>buf. packet = take (dec buf) buf)"
  using assms
proof (induction evs arbitrary: data)
  case Nil
  then show ?case by simp
next
  case (Cons ev evs)
  show ?case
  proof (cases ev)
    case Deadline
    with Cons.prems show ?thesis by simp
  next
    case (Tick chunk)
    define buf where "buf = data @ chunk"
    from Cons.prems(1) Tick
    have run: "(if take 4 (take (dec buf) buf) = [0xB5, 0x62, m_cls, m_id]
                then (take (dec buf) buf, evs)
                else wait_for dec m_cls m_id evs (drop (dec buf) buf)) = (packet, evs')"
      unfolding buf_def by (simp only: wait_for_Tick)
    show ?thesis
    proof (cases "take 4 (take (dec buf) buf) = [0xB5, 0x62, m_cls, m_id]")
      case True
      with run have "packet = take (dec buf) buf" by simp
      with True show ?thesis by blast
    next
      case False
      with run have "wait_for dec m_cls m_id evs (drop (dec buf) buf) = (packet, evs')"
        by simp
      from Cons.IH [OF this Cons.prems(2)] show ?thesis .
    qed
  qed
qed

text \<open>
  Claim C3, as amended. Whatever decoder the library provides, every non-empty result of
  \<open>wait_for\<close> is the prefix consumed by one decoder call and starts with the sync bytes
  and the requested class and id; a consumed prefix that starts otherwise is dropped and
  never returned. With the decoder of the specification the result is a complete frame.
  The checksum is not part of the test: the decoder reports only a byte count, and
  \<open>wait_for\<close> compares the first four bytes.
\<close>

theorem wait_for_returns_frame:
  assumes "wait_for dec m_cls m_id evs data = (packet, evs')" and "packet \<noteq> []"
  shows "take 4 packet = [0xB5, 0x62, m_cls, m_id] \<and> (\<exists>buf. packet = take (dec buf) buf)
         \<and> (dec = ubx_decode \<longrightarrow> complete_frame m_cls m_id packet)"
proof -
  from wait_for_prefix [OF assms] obtain buf
    where p: "take 4 packet = [0xB5, 0x62, m_cls, m_id]" "packet = take (dec buf) buf"
    by blast
  have "complete_frame m_cls m_id packet" if "dec = ubx_decode"
    using p that frame_of_decode [of buf m_cls m_id] by simp
  with p show ?thesis by blast
qed

theorem wait_for_returns_frame_witness:
  "wait_for ubx_decode 0x0A 0x04 [Tick [0x24, 0xB5, 0x62, 0x0A], Tick [0x04, 0, 0, 0x0E, 0x34]] []
     = ([0xB5, 0x62, 0x0A, 0x04, 0, 0, 0x0E, 0x34], [])
   \<and> complete_frame 0x0A 0x04 [0xB5, 0x62, 0x0A, 0x04, 0, 0, 0x0E, 0x34]"
proof -
  have w: "wait_for ubx_decode 0x0A 0x04 [Tick [0x24, 0xB5, 0x62, 0x0A], Tick [0x04, 0, 0, 0x0E, 0x34]] []
     = ([0xB5, 0x62, 0x0A, 0x04, 0, 0, 0x0E, 0x34], [])"
    by (simp add: decode_msg_def ubx_decode_def)
  have n: "[0xB5, 0x62, 0x0A, 0x04, 0, 0, 0x0E, 0x34] \<noteq> ([] :: bytes)" by simp
  from wait_for_returns_frame [OF w n] w show ?thesis by simp
qed

text \<open>
  A frame with the requested class and id and a wrong checksum (the right one is
  \<open>0x0E, 0x34\<close>) is returned as it came.
\<close>

theorem wait_for_checksum_counterexample:
  "fst (wait_for ubx_decode 0x0A 0x04 [Tick [0xB5, 0x62, 0x0A, 0x04, 0, 0, 0, 0]] [])
     = [0xB5, 0x62, 0x0A, 0x04, 0, 0, 0, 0]
   \<and> \<not> checksum_ok [0xB5, 0x62, 0x0A, 0x04, 0, 0, 0, 0]
   \<and> checksum_ok [0xB5, 0x62, 0x0A, 0x04, 0, 0, 0x0E, 0x34]"
  by (simp add: decode_msg_def ubx_decode_def checksum_ok_def checksum_def)

section \<open>The position-aid encoder\<close>

text \<open>
  Claim C6. \<open>ubx_mga_ini_pos_llh(52.0, 4.3, 10, 5)\<close>: the payload has 20 bytes; bytes 0
  and 1 are \<open>0x01, 0x00\<close> and bytes 2 and 3 are zero; bytes 4 to 7, 8 to 11 and 12 to 15
  read as little-endian signed integers are 520000000, 43000000 and 1000, and bytes 16 to
  19 read unsigned are 5000000. The float \<open>4.3\<close> is the binary64 value nearest to 43/10
  and its product with \<open>10**7\<close> rounds to 43000000 exactly. The packet is the payload
  framed with class \<open>0x13\<close>, id \<open>0x40\<close> and length 20.
\<close>

theorem position_aid_example:
  "(case pos_llh_payload (PFloat 52) (PFloat (float_lit (43 / 10))) (PInt 10) (PInt 5) of
      Inl err \<Rightarrow> False
    | Inr m_data \<Rightarrow>
        length m_data = 20 \<and> take 2 m_data = [0x01, 0x00] \<and> take 2 (drop 2 m_data) = [0, 0] \<and>
        le_i32 (take 4 (drop 4 m_data)) = 520000000 \<and>
        le_i32 (take 4 (drop 8 m_data)) = 43000000 \<and>
        le_i32 (take 4 (drop 12 m_data)) = 1000 \<and>
        le_u32 (take 4 (drop 16 m_data)) = 5000000 \<and>
        ubx_mga_ini_pos_llh (PFloat 52) (PFloat (float_lit (43 / 10))) (Some (PInt 10)) (Some (PInt 5))
          = Inr ([0xB5, 0x62, 0x13, 0x40, 20, 0] @ m_data @ [0x4A, 0x2C]))"
  by code_simp

text \<open>
  Claim C4 fails on the code. A position accuracy of 5000 km passes the validation range
  \<open>[0, 6000000]\<close>, its fixed-point value \<open>5000 * 10**6\<close> does not fit the unsigned
  32-bit format \<open>I\<close>, and packing raises, in the encoder of \<open>UBlox\<close> and in the inline
  encoder of the stateless script alike. Inside \<open>AssistNow.update\<close> the encoder is not
  even reached when \<open>pacc\<close> is given: the keyword argument \<open>pacc\<close> is not a parameter of
  \<open>ubx_mga_ini_pos_llh\<close>.
\<close>

theorem pacc_out_of_range:
  "validate_number pf gv (VFloat 5000) 0 6000000 = Inr (VFloat 5000)
   \<and> ubx_mga_ini_pos_llh (PFloat 0) (PFloat 0) None (Some (PFloat 5000))
       = Inl (StructError ''I format requires 0 <= number <= 4294967295'')
   \<and> assistnow_initial_position
        [(''lat'', VFloat 0), (''lon'', VFloat 0), (''alt'', VNone), (''pacc'', VFloat 5000)]
       = Inl (StructError ''I format requires 0 <= number <= 4294967295'')
   \<and> initial_position
        [(''lat'', VFloat 0), (''lon'', VFloat 0), (''alt'', VNone), (''pacc'', VFloat 5)]
       = Inl (TypeError (''ubx_mga_ini_pos_llh() got an unexpected keyword argument 'pacc'' @ [CHR 0x27]))"
proof -
  have 1: "validate_number pf gv (VFloat 5000) 0 6000000 = Inr (VFloat 5000)"
    by (simp add: validate_number_def py_float_def bind_err_def)
  have 2: "ubx_mga_ini_pos_llh (PFloat 0) (PFloat 0) None (Some (PFloat 5000))
       = Inl (StructError ''I format requires 0 <= number <= 4294967295'')"
    by code_simp
  have 3: "assistnow_initial_position
        [(''lat'', VFloat 0), (''lon'', VFloat 0), (''alt'', VNone), (''pacc'', VFloat 5000)]
       = Inl (StructError ''I format requires 0 <= number <= 4294967295'')"
    by code_simp
  have 4: "initial_position
        [(''lat'', VFloat 0), (''lon'', VFloat 0), (''alt'', VNone), (''pacc'', VFloat 5)]
       = Inl (TypeError (''ubx_mga_ini_pos_llh() got an unexpected keyword argument 'pacc'' @ [CHR 0x27]))"
    by code_simp
  from 1 2 3 4 show ?thesis by blast
qed

section \<open>Validation errors\<close>

text \<open>
  Claim C9 fails on the code. With the command line \<open>lat=100 lon=5\<close> the module-level
  \<open>v\<close> is \<open>5\<close>, and the error for the latitude 100 names 5; a latitude that is not a
  number is reported the same way, without a range; with \<open>v\<close> unbound the error is a
  \<open>NameError\<close>. \<open>validate_list\<close> does name the offending choice and the valid ones.
\<close>

theorem validate_number_names_wrong_value:
  "validate_number (float_table [(''100'', 100), (''5'', 5)]) (Some ''5'') (VStr ''100'') (- 90) 90
     = Inl (ValueError ''Invalid value '5'; not in [-90, 90]'')
   \<and> validate_number (float_table [(''100'', 100), (''5'', 5)]) (Some ''5'') (VStr ''north'') (- 90) 90
     = Inl (ValueError ''Invalid value '5'; not a number'')
   \<and> validate_number (float_table []) None (VInt 100) (- 90) 90
     = Inl (NameError ''name 'v' is not defined'')
   \<and> validate_list (VStr ''eph, xyz'') [''eph'', ''alm'']
     = Inl (ValueError ''Unknown value 'xyz'; valid choices are: eph, alm'')"
  by code_simp

section \<open>The validity window\<close>

lemma validate_number_float:
  "validate_number pf gv (VFloat x) lo hi =
     (if of_int lo \<le> x \<and> x \<le> of_int hi then Inr (VFloat x)
      else Inl (invalid_value gv (not_in_range lo hi)))"
  by (simp add: validate_number_def py_float_def bind_err_def)

lemma validate_number_str:
  "validate_number pf gv (VStr s) lo hi =
     (case pf s of
        None \<Rightarrow> Inl (invalid_value gv ''not a number'')
      | Some NotFinite \<Rightarrow> Inl (invalid_value gv (not_in_range lo hi))
      | Some (Finite x) \<Rightarrow>
          if of_int lo \<le> x \<and> x \<le> of_int hi then Inr (VFloat x)
          else Inl (invalid_value gv (not_in_range lo hi)))"
  by (simp add: validate_number_def py_float_def bind_err_def split: option.splits pyfloat.splits)

lemma round_double_3: "round_double 3 = 3"
  by code_simp

text \<open>
  Claim C8, as amended. The constructor validates \<open>cache_duration\<close> with
  \<open>validate_number(cache_duration, 0, 24)\<close> and does not clamp: a value in \<open>[0, 24]\<close>
  (a float, or a string that reads as one) is kept as it is, any other value makes the
  constructor raise, and the default argument 3 gives a window of 3 hours.
\<close>

theorem cache_duration_not_clamped:
  "(case AssistNow_init e (VFloat x) cfg_file cch_file now evs of
      Inl err \<Rightarrow> \<not> (0 \<le> x \<and> x \<le> 24)
    | Inr st \<Rightarrow> 0 \<le> x \<and> x \<le> 24 \<and> cache_duration st = VFloat x)
   \<and> (case float_of_str e s of
         Some (Finite y) \<Rightarrow>
           (case AssistNow_init e (VStr s) cfg_file cch_file now evs of
              Inl err \<Rightarrow> \<not> (0 \<le> y \<and> y \<le> 24)
            | Inr st \<Rightarrow> 0 \<le> y \<and> y \<le> 24 \<and> cache_duration st = VFloat y)
       | _ \<Rightarrow>
           (case AssistNow_init e (VStr s) cfg_file cch_file now evs of
              Inl err \<Rightarrow> True
            | Inr st \<Rightarrow> False))
   \<and> (case AssistNow_init e default_cache_duration cfg_file cch_file now evs of
         Inl err \<Rightarrow> False
       | Inr st \<Rightarrow> cache_duration st = VFloat 3)"
proof -
  have a: "(case AssistNow_init e (VFloat x) cfg_file cch_file now evs of
      Inl err \<Rightarrow> \<not> (0 \<le> x \<and> x \<le> 24)
    | Inr st \<Rightarrow> 0 \<le> x \<and> x \<le> 24 \<and> cache_duration st = VFloat x)"
    by (simp add: AssistNow_init_def validate_number_float bind_err_def)
  have b: "(case float_of_str e s of
         Some (Finite y) \<Rightarrow>
           (case AssistNow_init e (VStr s) cfg_file cch_file now evs of
              Inl err \<Rightarrow> \<not> (0 \<le> y \<and> y \<le> 24)
            | Inr st \<Rightarrow> 0 \<le> y \<and> y \<le> 24 \<and> cache_duration st = VFloat y)
       | _ \<Rightarrow>
           (case AssistNow_init e (VStr s) cfg_file cch_file now evs of
              Inl err \<Rightarrow> True
            | Inr st \<Rightarrow> False))"
    by (simp add: AssistNow_init_def validate_number_str bind_err_def
          split: option.splits pyfloat.splits)
  have "validate_number (float_of_str e) (global_v e) (VInt 3) 0 24 = Inr (VFloat 3)"
    by (simp add: validate_number_def py_float_def bind_err_def round_double_3 Let_def)
  then have c: "(case AssistNow_init e default_cache_duration cfg_file cch_file now evs of
         Inl err \<Rightarrow> False
       | Inr st \<Rightarrow> cache_duration st = VFloat 3)"
    by (simp add: AssistNow_init_def default_cache_duration_def bind_err_def)
  from a b c show ?thesis by blast
qed

text \<open>
  A requested window of 30 hours does not behave as 24: the constructor raises, while 24
  itself is accepted.
\<close>

theorem cache_duration_counterexample:
  "AssistNow_init (example_env (Some ''30'') []) (VStr ''30'') None None 0 []
     = Inl (ValueError ''Invalid value '30'; not in [0, 24]'')
   \<and> (\<exists>st. AssistNow_init (example_env (Some ''30'') []) (VFloat 24) None None 0 [] = Inr st)"
  by (simp add: AssistNow_init_def example_env_def float_table_def validate_number_def py_float_def
        bind_err_def invalid_value_def not_in_range_def show_int_def digits.simps)

section \<open>Registration of a registered device\<close>

text \<open>
  Claim C10. When the configuration holds a chipcode, \<open>register\<close> raises
  \<open>Exception("Device already registered.")\<close> at once: the state is returned as it
  was, so nothing was written to the device, no request was sent, and configuration,
  cache and files are unchanged.
\<close>

theorem register_when_registered:
  assumes "is_registered st"
  shows "register e token st = (Inl (Exception ''Device already registered.''), st)"
  using assms by (simp add: register_def)

theorem register_when_registered_witness:
  "is_registered (example_state registered_config (Some [1, 2, 3]))
   \<and> register (example_env None []) (VStr ''token'') (example_state registered_config (Some [1, 2, 3]))
       = (Inl (Exception ''Device already registered.''), example_state registered_config (Some [1, 2, 3]))"
proof -
  have r: "is_registered (example_state registered_config (Some [1, 2, 3]))"
    by (simp add: is_registered_def example_state_def registered_config_def)
  from register_when_registered [OF r] r show ?thesis by simp
qed

section \<open>Cache hit and cache miss\<close>


lemma track_params_True: "snd (track_params ps cfg True) = True"
  by (induction ps arbitrary: cfg) auto

lemma track_params_changed:
  "(\<exists>(k, v) \<in> set ps. \<not> py_eq (dict_get cfg k) v) \<Longrightarrow> snd (track_params ps cfg ch) = True"
proof (induction ps arbitrary: ch)
  case Nil
  then show ?case by simp
next
  case (Cons p ps)
  obtain k v where p: "p = (k, v)" by (cases p)
  show ?case
  proof (cases "py_eq (dict_get cfg k) v")
    case True
    with Cons.prems p have "\<exists>(k, v) \<in> set ps. \<not> py_eq (dict_get cfg k) v" by auto
    from Cons.IH [OF this] True p show ?thesis by simp
  next
    case False
    with p show ?thesis by (simp add: track_params_True)
  qed
qed

lemma track_params_keeps:
  "map_of cfg k \<noteq> None \<Longrightarrow> map_of (fst (track_params ps cfg ch)) k \<noteq> None"
  by (induction ps arbitrary: cfg ch) (auto simp: update_conv')

lemma dict_item_keeps:
  assumes "dict_item cfg k = Inr v"
  shows "\<exists>v'. dict_item (fst (track_params ps cfg ch)) k = Inr v'"
proof -
  from assms have "map_of cfg k \<noteq> None" by (auto simp: dict_item_def split: option.splits)
  from track_params_keeps [OF this, of ps ch] show ?thesis
    by (auto simp: dict_item_def split: option.splits)
qed


text \<open>The miss: the cache is dropped and exactly one request goes out.\<close>

lemma send_cache_requests:
  assumes "send_cache e st = Some (res, st')"
  shows "requests st' = requests st \<and> cache st' = cache st"
  using assms by (auto simp: send_cache_def split: option.splits)

lemma send_cache_returns: "\<exists>res st'. send_cache e st = Some (res, st')"
proof (cases "cache st")
  case None
  then show ?thesis by (simp add: send_cache_def)
next
  case (Some bs)
  obtain pkts where "send_data (decoder e) bs = Some pkts" using send_data_returns by blast
  with Some show ?thesis by (simp add: send_cache_def)
qed

lemma save_cache_fields: "requests (save_cache st) = requests st \<and> cache (save_cache st) = cache st"
  by (simp add: save_cache_def split: option.splits)

lemma fetch_once:
  assumes url: "dict_item (config st) ''serviceUrl'' = Inr url"
    and cc: "dict_item (config st) ''chipcode'' = Inr chipcode"
    and nc: "\<not> has_cache st"
  shows "\<exists>res st'. fetch e params st = Some (res, st') \<and>
           requests st' = requests st @ [Get url (AList.update ''chipcode'' chipcode params)] \<and>
           (\<not> has_cache st' \<or>
            (\<exists>status content. http_get e url (AList.update ''chipcode'' chipcode params) = Inr (status, content)
               \<and> \<not> raises_for_status status
               \<and> (cache st' = Some content \<or> (\<exists>ip. cache st' = Some (ip @ content)))))"
proof -
  define ps where "ps = AList.update ''chipcode'' chipcode params"
  define st1 where "st1 = st\<lparr>requests := requests st @ [Get url ps]\<rparr>"
  have nc1: "\<not> has_cache st1" using nc by (simp add: st1_def has_cache_def)
  show ?thesis
  proof (cases "http_get e url ps")
    case (Inl err)
    with url cc nc1 show ?thesis
      by (simp add: fetch_def Let_def ps_def st1_def)
  next
    case (Inr r)
    obtain status content where r: "r = (status, content)" by (cases r)
    show ?thesis
    proof (cases "raises_for_status status")
      case True
      with Inr r url cc nc1 show ?thesis by (simp add: fetch_def Let_def ps_def st1_def)
    next
      case False
      define body where "body = (if position_present ps
                                then bind_err (initial_position ps) (\<lambda>ip. Inr (ip @ content))
                                else Inr content)"
      show ?thesis
      proof (cases body)
        case (Inl err)
        with Inr r url cc nc1 False show ?thesis
          by (simp add: fetch_def Let_def ps_def [symmetric] body_def [symmetric] st1_def)
      next
        case (Inr data)
        define st2 where "st2 = save_cache (st1\<lparr>cache := Some data\<rparr>)"
        obtain res st' where sc: "send_cache e st2 = Some (res, st')"
          using send_cache_returns by blast
        from send_cache_requests [OF sc]
        have f: "requests st' = requests st @ [Get url ps]" "cache st' = Some data"
          by (simp_all add: st2_def st1_def save_cache_fields)
        have d: "data = content \<or> (\<exists>ip. data = ip @ content)"
          using Inr by (auto simp: body_def bind_err_def split: if_splits sum.splits)
        have "fetch e params st = Some (res, st')"
          using \<open>http_get e url ps = Inr r\<close> r url cc False Inr sc
          by (simp add: fetch_def Let_def ps_def [symmetric] body_def [symmetric]
                st1_def [symmetric] st2_def [symmetric])
        with f d \<open>http_get e url ps = Inr r\<close> r False show ?thesis
          unfolding ps_def [symmetric] by blast
      qed
    qed
  qed
qed

lemma update_miss:
  assumes reg: "is_registered st"
    and val: "validate_params e (if kwargs = [] then config st else kwargs) (config st) = Inr params"
    and miss: "snd (track_params params (config st) False) \<or> \<not> has_cache st"
    and url: "dict_item (config st) ''serviceUrl'' = Inr url0"
  shows "\<exists>res st' url ps. update e kwargs st = Some (res, st') \<and>
           requests st' = requests st @ [Get url ps] \<and>
           (\<not> has_cache st' \<or>
            (\<exists>status content. http_get e url ps = Inr (status, content)
               \<and> \<not> raises_for_status status
               \<and> (cache st' = Some content \<or> (\<exists>ip. cache st' = Some (ip @ content)))))"
proof -
  obtain cfg changed where t: "track_params params (config st) False = (cfg, changed)"
    by (cases "track_params params (config st) False")
  define st1 where "st1 = st\<lparr>config := cfg\<rparr>"
  define st2 where "st2 = (if changed then (save_config st1)\<lparr>cache := None\<rparr> else st1)"
  have cfg2: "config st2 = cfg" and req2: "requests st2 = requests st"
    by (simp_all add: st2_def st1_def save_config_def)
  have nc: "\<not> has_cache st2"
    using miss t by (auto simp: st2_def st1_def has_cache_def)
  from dict_item_keeps [OF url, of params False] t cfg2
  obtain url where u: "dict_item (config st2) ''serviceUrl'' = Inr url" by auto
  from reg obtain c0 where "dict_item (config st) ''chipcode'' = Inr c0"
    by (auto simp: is_registered_def dict_item_def)
  from dict_item_keeps [OF this, of params False] t cfg2
  obtain chipcode where c: "dict_item (config st2) ''chipcode'' = Inr chipcode" by auto
  have "update e kwargs st = fetch e params st2"
    unfolding st2_def st1_def using reg val t nc [unfolded st2_def st1_def]
    by (auto simp add: update_def Let_def)
  with fetch_once [OF u c nc, of e params] req2 show ?thesis by metis
qed

lemma send_data_prefix:
  "send_data dec data = Some pkts \<Longrightarrow> \<exists>rest. data = concat pkts @ rest"
proof (induction data arbitrary: pkts rule: length_induct)
  case (1 data)
  show ?case
  proof (cases "length data = 0 \<or> dec data = 0")
    case True
    with "1.prems" have "pkts = []"
      by (subst (asm) send_data.simps) (auto simp: decode_msg_def Let_def split: if_splits)
    then show ?thesis by simp
  next
    case False
    then have len: "length (drop (dec data) data) < length data" by simp
    from "1.prems" False obtain s where s: "send_data dec (drop (dec data) data) = Some s"
      and p: "pkts = take (dec data) data # s"
      by (subst (asm) send_data.simps) (auto simp: decode_msg_def Let_def split: Option.bind_splits)
    from 1(1) len s obtain rest where "drop (dec data) data = concat s @ rest" by blast
    with p have "data = concat pkts @ rest"
      by (metis append.assoc append_take_drop_id concat.simps(2))
    then show ?thesis by blast
  qed
qed









lemma served_registered: "is_registered served_state"
  by (simp add: served_state_def example_state_def served_config_def registered_config_def
        is_registered_def)


lemma served_url: "dict_item (config served_state) ''serviceUrl'' = Inr (VStr ''https://service'')"
  by (simp add: served_state_def example_state_def served_config_def registered_config_def
        dict_item_def)

lemma served_get:
  "dict_get (config served_state) k =
     (if k = ''chipcode'' then VStr ''c0de'' else if k = ''serviceUrl'' then VStr ''https://service''
      else if k = ''allowedData'' then VStr ''eph,alm,aux'' else if k = ''data'' then VStr ''eph''
      else if k = ''gnss'' then VNone else if k = ''lat'' then VFloat 1
      else if k = ''lon'' then VFloat 2 else if k = ''alt'' then VNone
      else if k = ''pacc'' then VNone else if k = ''filteronpos'' then VInt 1 else VNone)"
  by (simp add: served_state_def example_state_def served_config_def registered_config_def
        dict_get_def)


lemma served_validate_moved:
  "validate_params (example_env None [9])
     [(''data'', VStr ''eph''), (''lat'', VFloat (3 / 2)), (''lon'', VFloat 2)] (config served_state)
   = Inr [(''data'', VStr ''eph''), (''gnss'', VNone), (''lat'', VFloat (3 / 2)), (''lon'', VFloat 2),
          (''alt'', VNone), (''pacc'', VNone), (''filteronpos'', VInt 1)]"
  by code_simp




section \<open>The encoder on validated coordinates\<close>

text \<open>
  Rounding to binary64 never carries a value across an integer below \<open>2 ^ 53\<close>, so the
  fixed-point latitude and longitude of a validated request fit the signed 32-bit format
  and the encoder, called with the default altitude and accuracy, succeeds.
\<close>

lemma round_half_even_le:
  assumes "x \<le> of_int M"
  shows "round_half_even x \<le> M"
proof -
  have f: "\<lfloor>x\<rfloor> \<le> M" using assms by (simp add: floor_le_iff)
  show ?thesis
  proof (cases "\<lfloor>x\<rfloor> = M")
    case True
    then have "of_int M \<le> x" using of_int_floor_le [of x] by simp
    with assms have "x = of_int M" by simp
    then show ?thesis by (simp add: round_half_even_def)
  next
    case False
    with f have "\<lfloor>x\<rfloor> + 1 \<le> M" by simp
    with f show ?thesis by (auto simp: round_half_even_def Let_def)
  qed
qed

lemma round_half_even_nonneg:
  assumes "0 \<le> x"
  shows "0 \<le> round_half_even x"
proof -
  have "0 \<le> \<lfloor>x\<rfloor>" using assms by simp
  then show ?thesis by (auto simp: round_half_even_def Let_def)
qed

lemma floor_log2_le:
  assumes "0 < a" and "a < 2 ^ 53"
  shows "floor_log2 a \<le> 52"
proof (cases "1 \<le> a")
  case True
  have "\<lfloor>a\<rfloor> < 2 ^ 53" using assms(2) by (simp add: floor_less_iff)
  then have "bitlen \<lfloor>a\<rfloor> \<le> 53" by (simp add: bitlen_le_iff_power)
  with True show ?thesis by (simp add: floor_log2_def)
next
  case False
  then show ?thesis using bitlen_nonneg [of "\<lceil>1 / a\<rceil> - 1"] by (simp add: floor_log2_def)
qed

lemma round_double_bound:
  assumes "\<bar>x\<bar> \<le> of_int N" and "N < 2 ^ 53"
  shows "\<bar>round_double x\<bar> \<le> of_int N"
proof (cases "x = 0")
  case True
  with assms show ?thesis by (simp add: round_double_def)
next
  case False
  define a where "a = \<bar>x\<bar>"
  define e where "e = max (floor_log2 a - 52) (- 1074)"
  define K :: int where "K = 2 ^ nat (- e)"
  have a: "0 < a" "a \<le> of_int N" using False assms by (simp_all add: a_def)
  have "of_int N < (2 ^ 53 :: rat)" using assms(2) by (metis of_int_less_iff of_int_numeral of_int_power)
  with a have "a < 2 ^ 53" by simp
  from floor_log2_le [OF a(1) this] have e: "e \<le> 0" by (simp add: e_def)
  have K: "0 < K" by (simp add: K_def)
  have p: "pow2 e = 1 / of_int K"
    using e by (cases "e = 0") (simp_all add: pow2_def K_def)
  have "a / pow2 e = a * of_int K" by (simp add: p)
  also have "\<dots> \<le> of_int N * of_int K" using a K by (simp add: mult_right_mono)
  finally have "a / pow2 e \<le> of_int (N * K)" by simp
  then have m1: "round_half_even (a / pow2 e) \<le> N * K" by (rule round_half_even_le)
  have "0 \<le> a / pow2 e" using a K by (simp add: p)
  then have m0: "0 \<le> round_half_even (a / pow2 e)" by (rule round_half_even_nonneg)
  have "\<bar>round_double x\<bar> = of_int (round_half_even (a / pow2 e)) * pow2 e"
    using False m0 K by (simp add: round_double_def Let_def a_def [symmetric] e_def [symmetric]
        abs_mult p)
  also have "\<dots> = of_int (round_half_even (a / pow2 e)) / of_int K" by (simp add: p)
  also have "\<dots> \<le> of_int (N * K) / of_int K"
    using m1 K by (simp add: divide_right_mono del: of_int_mult)
  also have "\<dots> = of_int N" using K by simp
  finally show ?thesis .
qed

lemma py_trunc_bound:
  assumes "\<bar>p\<bar> \<le> of_int N"
  shows "- N \<le> py_trunc p \<and> py_trunc p \<le> N"
proof (cases "0 \<le> p")
  case True
  then have f0: "0 \<le> \<lfloor>p\<rfloor>" by simp
  have f1: "\<lfloor>p\<rfloor> \<le> N" using assms True by (simp add: floor_le_iff)
  have "py_trunc p = \<lfloor>p\<rfloor>" using True by (simp add: py_trunc_def)
  with f0 f1 show ?thesis by linarith
next
  case False
  then have c0: "\<lceil>p\<rceil> \<le> 0" by (simp add: ceiling_le_iff)
  have c1: "- N \<le> \<lceil>p\<rceil>" using assms False by (simp add: le_ceiling_iff)
  have "py_trunc p = \<lceil>p\<rceil>" using False by (simp add: py_trunc_def)
  with c0 c1 show ?thesis by linarith
qed

lemma int_times_pow10_float:
  assumes "\<bar>f\<bar> \<le> of_int B" and "B * 10 ^ k < 2 ^ 53"
  shows "\<exists>n. int_times_pow10 (PFloat f) k = Inr n \<and> - (B * 10 ^ k) \<le> n \<and> n \<le> B * 10 ^ k"
proof -
  have "\<bar>f * 10 ^ k\<bar> \<le> of_int (B * 10 ^ k)"
    using assms(1) by (simp add: abs_mult mult_right_mono)
  from round_double_bound [OF this assms(2)]
  have r: "\<bar>round_double (f * 10 ^ k)\<bar> \<le> of_int (B * 10 ^ k)" .
  have "of_int (B * 10 ^ k) < (2 ^ 53 :: rat)"
    using assms(2) by (metis of_int_less_iff of_int_numeral of_int_power)
  also have "\<dots> < 2 ^ 1024" by simp
  finally have "\<not> 2 ^ 1024 \<le> \<bar>round_double (f * 10 ^ k)\<bar>" using r by linarith
  with py_trunc_bound [OF r] show ?thesis
    by (simp add: int_times_pow10_def Let_def del: of_int_mult of_int_power)
qed


lemma le32_length: "length (le32 v) = 4"
  by (simp add: le32_def)

lemma encoder_validated:
  assumes "- 90 \<le> la" "la \<le> 90" "- 180 \<le> lo" "lo \<le> 180"
  shows "\<exists>m_data. pos_llh_payload (PFloat la) (PFloat lo) (PInt 0) (PInt 300) = Inr m_data \<and>
           length m_data = 20 \<and>
           ubx_mga_ini_pos_llh (PFloat la) (PFloat lo) None None
             = Inr ([0xB5, 0x62, 0x13, 0x40, 20, 0] @ m_data @
                    [fst (checksum ([0x13, 0x40, 20, 0] @ m_data)),
                     snd (checksum ([0x13, 0x40, 20, 0] @ m_data))])"
proof -
  have "\<bar>la\<bar> \<le> of_int 90" using assms by simp
  from int_times_pow10_float [OF this, of 7]
  obtain lat where lat: "int_times_pow10 (PFloat la) 7 = Inr lat"
    "- 900000000 \<le> lat" "lat \<le> 900000000" by auto
  have "\<bar>lo\<bar> \<le> of_int 180" using assms by simp
  from int_times_pow10_float [OF this, of 7]
  obtain lon where lon: "int_times_pow10 (PFloat lo) 7 = Inr lon"
    "- 1800000000 \<le> lon" "lon \<le> 1800000000" by auto
  define m_data where
    "m_data = [0x01, 0x00, 0, 0] @ le32 lat @ le32 lon @ le32 0 @ le32 300000000"
  have p: "pos_llh_payload (PFloat la) (PFloat lo) (PInt 0) (PInt 300) = Inr m_data"
    using lat lon
    by (simp add: pos_llh_payload_def bind_err_def int_times_pow10_def pack_i_def pack_I_def
          m_data_def)
  have l: "length m_data = 20" by (simp add: m_data_def le32_length)
  from p l show ?thesis
    by (simp add: ubx_mga_ini_pos_llh_def bind_err_def make_pkt_def Let_def)
qed

lemma validate_number_range:
  assumes "validate_number pf gv v lo hi = Inr (VFloat x)"
  shows "of_int lo \<le> x \<and> x \<le> of_int hi"
  using assms
  by (auto simp: validate_number_def bind_err_def split: if_splits sum.splits pyfloat.splits)

lemma position_present_base:
  "position_present [(''data'', data), (''gnss'', gnss), (''lat'', lat), (''lon'', lon),
                     (''alt'', alt), (''pacc'', pacc)] = (lat \<noteq> VNone \<and> lon \<noteq> VNone)"
  by (simp add: position_present_def dict_get_def)

lemma validate_params_shape:
  assumes "validate_params e kw cfg = Inr params"
  shows "\<exists>data gnss lat lon alt pacc.
           validate_number (float_of_str e) (global_v e) (dict_get kw ''lat'') (- 90) 90 = Inr lat \<and>
           validate_number (float_of_str e) (global_v e) (dict_get kw ''lon'') (- 180) 180 = Inr lon \<and>
           params = [(''data'', data), (''gnss'', gnss), (''lat'', lat), (''lon'', lon),
                     (''alt'', alt), (''pacc'', pacc)] @
                    (if lat \<noteq> VNone \<and> lon \<noteq> VNone then [(''filteronpos'', VInt 1)] else [])"
proof -
  from assms obtain data gnss lat lon alt pacc where
    v: "validate_number (float_of_str e) (global_v e) (dict_get kw ''lat'') (- 90) 90 = Inr lat"
       "validate_number (float_of_str e) (global_v e) (dict_get kw ''lon'') (- 180) 180 = Inr lon"
    and p: "params =
       (if position_present [(''data'', data), (''gnss'', gnss), (''lat'', lat), (''lon'', lon),
                             (''alt'', alt), (''pacc'', pacc)]
        then [(''data'', data), (''gnss'', gnss), (''lat'', lat), (''lon'', lon),
              (''alt'', alt), (''pacc'', pacc)] @ [(''filteronpos'', VInt 1)]
        else [(''data'', data), (''gnss'', gnss), (''lat'', lat), (''lon'', lon),
              (''alt'', alt), (''pacc'', pacc)])"
    unfolding validate_params_def bind_err_def Let_def
    by (simp split: sum.splits) blast
  from p have "params = [(''data'', data), (''gnss'', gnss), (''lat'', lat), (''lon'', lon),
                     (''alt'', alt), (''pacc'', pacc)] @
                    (if lat \<noteq> VNone \<and> lon \<noteq> VNone then [(''filteronpos'', VInt 1)] else [])"
    unfolding position_present_base by (simp split: if_splits)
  with v show ?thesis by blast
qed

lemma track_params_other:
  "k \<notin> fst ` set ps \<Longrightarrow> map_of (fst (track_params ps cfg ch)) k = map_of cfg k"
  by (induction ps arbitrary: cfg ch) (auto simp: update_conv')

lemma dict_get_update_other:
  "k \<noteq> k' \<Longrightarrow> dict_get (AList.update k' v d) k = dict_get d k"
  by (simp add: dict_get_def update_conv')

section \<open>The cache entry after a miss\<close>

lemma params_keys:
  assumes "validate_params e kw cfg = Inr params"
  shows "''serviceUrl'' \<notin> fst ` set params \<and> ''chipcode'' \<notin> fst ` set params"
  using validate_params_shape [OF assms] by auto

lemma dict_item_tracked:
  assumes "validate_params e kw cfg0 = Inr params"
  shows "dict_item (fst (track_params params cfg ch)) ''serviceUrl'' = dict_item cfg ''serviceUrl''
       \<and> dict_item (fst (track_params params cfg ch)) ''chipcode'' = dict_item cfg ''chipcode''"
  using params_keys [OF assms] by (simp add: dict_item_def track_params_other)
lemma served_chipcode: "dict_item (config served_state) ''chipcode'' = Inr (VStr ''c0de'')"
  by (simp add: served_state_def example_state_def served_config_def registered_config_def
        dict_item_def)

text \<open>
  Claim C2, as amended. On a cache miss whose validated parameters hold \<open>lat\<close> and \<open>lon\<close>
  and neither \<open>alt\<close> nor \<open>pacc\<close>, with a fetch that succeeds, the new cache entry is the
  position-aid packet built from that \<open>lat\<close> and \<open>lon\<close> followed by the fetched body:
  its first 28 bytes are the packet (6 bytes of header, 20 of payload, 2 of checksum), the
  rest is the body verbatim.
\<close>

theorem update_miss_position:
  assumes reg: "is_registered st"
    and val: "validate_params e (if kwargs = [] then config st else kwargs) (config st) = Inr params"
    and miss: "snd (track_params params (config st) False) \<or> \<not> has_cache st"
    and lat: "dict_get params ''lat'' = VFloat la" and lon: "dict_get params ''lon'' = VFloat lo"
    and alt: "dict_get params ''alt'' = VNone" and pacc: "dict_get params ''pacc'' = VNone"
    and url: "dict_item (config st) ''serviceUrl'' = Inr url"
    and cc: "dict_item (config st) ''chipcode'' = Inr chipcode"
    and http: "http_get e url (AList.update ''chipcode'' chipcode params) = Inr (status, content)"
    and ok: "\<not> raises_for_status status"
  shows "\<exists>ip st'. ubx_mga_ini_pos_llh (PFloat la) (PFloat lo) None None = Inr ip \<and>
           length ip = 28 \<and>
           update e kwargs st = Some (Inr (), st') \<and>
           cache st' = Some (ip @ content) \<and>
           take 28 (ip @ content) = ip \<and> drop 28 (ip @ content) = content"
proof -
  from validate_params_shape [OF val] lat lon
  have "validate_number (float_of_str e) (global_v e)
          (dict_get (if kwargs = [] then config st else kwargs) ''lat'') (- 90) 90 = Inr (VFloat la)"
    and "validate_number (float_of_str e) (global_v e)
          (dict_get (if kwargs = [] then config st else kwargs) ''lon'') (- 180) 180 = Inr (VFloat lo)"
    by (auto simp: dict_get_def split: if_splits)
  from validate_number_range [OF this(1)] validate_number_range [OF this(2)]
  have b: "- 90 \<le> la" "la \<le> 90" "- 180 \<le> lo" "lo \<le> 180" by simp_all
  from encoder_validated [OF b] obtain ip where
    ip: "ubx_mga_ini_pos_llh (PFloat la) (PFloat lo) None None = Inr ip" and len: "length ip = 28"
    by auto
  define ps where "ps = AList.update ''chipcode'' chipcode params"
  have g: "dict_get ps ''lat'' = VFloat la" "dict_get ps ''lon'' = VFloat lo"
    "dict_get ps ''alt'' = VNone" "dict_get ps ''pacc'' = VNone"
    using lat lon alt pacc by (simp_all add: ps_def dict_get_update_other)
  have pos: "position_present ps" using g by (simp add: position_present_def)
  have init: "initial_position ps = Inr ip"
    using g ip by (simp add: initial_position_def num_of_def bind_err_def)
  obtain cfg changed where t: "track_params params (config st) False = (cfg, changed)"
    by (cases "track_params params (config st) False")
  define st2 where
    "st2 = (if changed then (save_config (st\<lparr>config := cfg\<rparr>))\<lparr>cache := None\<rparr> else st\<lparr>config := cfg\<rparr>)"
  have cfg2: "config st2 = cfg" by (simp add: st2_def save_config_def)
  have nc: "\<not> has_cache st2" using miss t by (auto simp: st2_def has_cache_def)
  from dict_item_tracked [OF val, of "config st" False] t url cc cfg2
  have u2: "dict_item (config st2) ''serviceUrl'' = Inr url"
    and c2: "dict_item (config st2) ''chipcode'' = Inr chipcode" by simp_all
  have upd: "update e kwargs st = fetch e params st2"
    unfolding st2_def using reg val t nc [unfolded st2_def] by (auto simp add: update_def Let_def)
  define st3 where "st3 = save_cache (st2\<lparr>requests := requests st2 @ [Get url ps], cache := Some (ip @ content)\<rparr>)"
  have f: "fetch e params st2 = send_cache e st3"
    using u2 c2 http ok pos init
    by (simp add: fetch_def Let_def ps_def [symmetric] bind_err_def st3_def)
  have c3: "cache st3 = Some (ip @ content)" by (simp add: st3_def save_cache_fields)
  obtain pkts where "send_data (decoder e) (ip @ content) = Some pkts"
    using send_data_returns by blast
  with c3 have "send_cache e st3 = Some (Inr (), st3\<lparr>sent := sent st3 @ pkts\<rparr>)"
    by (simp add: send_cache_def)
  with upd f c3 have "update e kwargs st = Some (Inr (), st3\<lparr>sent := sent st3 @ pkts\<rparr>)"
    and "cache (st3\<lparr>sent := sent st3 @ pkts\<rparr>) = Some (ip @ content)" by simp_all
  with ip len show ?thesis by auto
qed

theorem update_miss_position_witness:
  "\<exists>ip st'. ubx_mga_ini_pos_llh (PFloat (3 / 2)) (PFloat 2) None None = Inr ip \<and>
      length ip = 28 \<and>
      update (example_env None [9])
        [(''data'', VStr ''eph''), (''lat'', VFloat (3 / 2)), (''lon'', VFloat 2)] served_state
        = Some (Inr (), st') \<and>
      cache st' = Some (ip @ [9]) \<and>
      take 28 (ip @ [9]) = ip \<and> drop 28 (ip @ [9]) = [9]"
proof -
  define params where
    "params = [(''data'', VStr ''eph''), (''gnss'', VNone), (''lat'', VFloat (3 / 2)),
               (''lon'', VFloat 2), (''alt'', VNone), (''pacc'', VNone), (''filteronpos'', VInt 1)]"
  have val: "validate_params (example_env None [9])
       (if [(''data'', VStr ''eph''), (''lat'', VFloat (3 / 2)), (''lon'', VFloat 2)] = []
        then config served_state
        else [(''data'', VStr ''eph''), (''lat'', VFloat (3 / 2)), (''lon'', VFloat 2)])
       (config served_state) = Inr params"
    using served_validate_moved by (simp add: params_def)
  have "\<exists>(k, v) \<in> set params. \<not> py_eq (dict_get (config served_state) k) v"
    by (simp add: params_def served_get py_eq_def)
  then have miss: "snd (track_params params (config served_state) False) \<or> \<not> has_cache served_state"
    by (simp add: track_params_changed)
  have g: "dict_get params ''lat'' = VFloat (3 / 2)" "dict_get params ''lon'' = VFloat 2"
    "dict_get params ''alt'' = VNone" "dict_get params ''pacc'' = VNone"
    by (simp_all add: params_def dict_get_def)
  have http: "http_get (example_env None [9]) (VStr ''https://service'')
                (AList.update ''chipcode'' (VStr ''c0de'') params) = Inr (200, [9])"
    by (simp add: example_env_def)
  have ok: "\<not> raises_for_status 200" by (simp add: raises_for_status_def)
  from update_miss_position [OF served_registered val miss g served_url served_chipcode http ok]
  show ?thesis .
qed

text \<open>
  The entry's bytes after the first 20 are not the fetched body (here the single byte 9):
  the last 8 bytes of the packet come first.
\<close>

theorem cache_entry_counterexample:
  "map_option (\<lambda>r. cache (snd r))
     (update (example_env None [9])
        [(''data'', VStr ''eph''), (''lat'', VFloat (3 / 2)), (''lon'', VFloat 2)] served_state)
     = Some (Some [181, 98, 19, 64, 20, 0, 1, 0, 0, 0, 192, 225, 228, 0, 0, 45, 49, 1,
                   0, 0, 0, 0, 0, 163, 225, 17, 225, 153, 9])
   \<and> drop 20 [181, 98, 19, 64, 20, 0, 1, 0, 0, 0, 192, 225, 228, 0, 0, 45, 49, 1,
               0, 0, 0, 0, 0, 163, 225, 17, 225, 153, 9 :: byte] \<noteq> [9]
   \<and> drop 28 [181, 98, 19, 64, 20, 0, 1, 0, 0, 0, 192, 225, 228, 0, 0, 45, 49, 1,
               0, 0, 0, 0, 0, 163, 225, 17, 225, 153, 9 :: byte] = [9]"
  by code_simp

section \<open>Requests without a position\<close>

lemma served_validate_data_only:
  "validate_params (example_env None [9]) [(''data'', VStr ''eph'')] (config served_state)
   = Inr [(''data'', VStr ''eph''), (''gnss'', VNone), (''lat'', VNone), (''lon'', VNone),
          (''alt'', VNone), (''pacc'', VNone)]"
  by code_simp

text \<open>
  Claim C5, as amended. The recorded parameters hold \<open>lat\<close>, \<open>lon\<close> and
  \<open>filteronpos = 1\<close>. A request that carries at least one argument and neither \<open>lat\<close>
  nor \<open>lon\<close> validates to parameters without a position; its \<open>lat\<close> differs from the
  recorded one, the cache is invalidated and exactly one request is fetched.
\<close>

theorem update_without_position:
  assumes reg: "is_registered st"
    and ne: "kwargs \<noteq> []"
    and nolat: "dict_get kwargs ''lat'' = VNone" and nolon: "dict_get kwargs ''lon'' = VNone"
    and rec: "dict_get (config st) ''lat'' = VFloat la" "dict_get (config st) ''lon'' = VFloat lo"
      "dict_get (config st) ''filteronpos'' = VInt 1"
    and val: "validate_params e kwargs (config st) = Inr params"
    and url: "dict_item (config st) ''serviceUrl'' = Inr url0"
  shows "dict_get params ''lat'' = VNone \<and> dict_get params ''lon'' = VNone \<and>
         \<not> position_present params \<and>
         \<not> py_eq (dict_get (config st) ''lat'') (dict_get params ''lat'') \<and>
         (\<exists>res st' url ps. update e kwargs st = Some (res, st') \<and>
            requests st' = requests st @ [Get url ps] \<and>
            (\<not> has_cache st' \<or>
             (\<exists>status content. http_get e url ps = Inr (status, content)
                \<and> \<not> raises_for_status status
                \<and> (cache st' = Some content \<or> (\<exists>ip. cache st' = Some (ip @ content))))))"
proof -
  have n: "validate_number (float_of_str e) (global_v e) VNone lo' hi' = Inr VNone" for lo' hi'
    by (simp add: validate_number_def)
  from validate_params_shape [OF val] nolat nolon n
  obtain data gnss alt pacc where
    p: "params = [(''data'', data), (''gnss'', gnss), (''lat'', VNone), (''lon'', VNone),
                  (''alt'', alt), (''pacc'', pacc)]"
    by auto
  then have g: "dict_get params ''lat'' = VNone" "dict_get params ''lon'' = VNone"
    by (simp_all add: dict_get_def)
  then have np: "\<not> position_present params" by (simp add: position_present_def)
  have d: "\<not> py_eq (dict_get (config st) ''lat'') (dict_get params ''lat'')"
    using rec g by (simp add: py_eq_def)
  have "(''lat'', VNone) \<in> set params" using p by simp
  with d g have "\<exists>(k, v) \<in> set params. \<not> py_eq (dict_get (config st) k) v" by force
  then have m: "snd (track_params params (config st) False) \<or> \<not> has_cache st"
    by (simp add: track_params_changed)
  have v': "validate_params e (if kwargs = [] then config st else kwargs) (config st) = Inr params"
    using val ne by simp
  from update_miss [OF reg v' m url] g np d show ?thesis by blast
qed

theorem update_without_position_witness:
  "\<exists>res st' url ps.
      update (example_env None [9]) [(''data'', VStr ''eph'')] served_state = Some (res, st') \<and>
      requests st' = requests served_state @ [Get url ps]"
proof -
  have ne: "[(''data'', VStr ''eph'')] \<noteq> ([] :: dict)" by simp
  have n: "dict_get [(''data'', VStr ''eph'')] ''lat'' = VNone"
    "dict_get [(''data'', VStr ''eph'')] ''lon'' = VNone"
    by (simp_all add: dict_get_def)
  have r: "dict_get (config served_state) ''lat'' = VFloat 1"
    "dict_get (config served_state) ''lon'' = VFloat 2"
    "dict_get (config served_state) ''filteronpos'' = VInt 1"
    by (simp_all add: served_get)
  from update_without_position [OF served_registered ne n r served_validate_data_only served_url]
  show ?thesis by blast
qed

text \<open>
  A request with no argument at all also omits \<open>lat\<close> and \<open>lon\<close>, but \<open>update\<close>
  replaces it by the recorded configuration: nothing differs, nothing is fetched, and the
  stored cache is forwarded.
\<close>

theorem empty_request_counterexample:
  "dict_get (config served_state) ''filteronpos'' = VInt 1
   \<and> dict_get [] ''lat'' = VNone \<and> dict_get [] ''lon'' = VNone
   \<and> update (example_env None [9]) [] served_state
       = Some (Inr (), served_state\<lparr>sent := [[0xB5, 0x62, 0x0A, 0x04, 0, 0, 0x0E, 0x34]]\<rparr>)
   \<and> requests served_state = []"
  by code_simp

end
